theory Spec2Isabelle
  imports Main "HOL-Library.Word"
begin

section \<open>Values of the Python runtime\<close>

text \<open>
  A Python \<open>str\<close> is a \<open>string\<close>: one \<open>char\<close> per code point, which covers every
  code point below 256 (the two messages of \<open>projeto.py\<close> outside ASCII hold U+00E3
  only). \<open>bytes\<close> are a list of 8-bit words. An exception is its class name and the
  text that \<open>str(e)\<close>, \<open>print(e)\<close> and an f-string show. A call that may raise returns
  \<open>exn + 'a\<close>, with \<open>Inl\<close> for the exception.
\<close>

type_synonym bytes = "8 word list"

datatype exn = Exn (exn_class: string) (exn_text: string)

text \<open>\<open>sub in s\<close> for two strings: \<open>sub\<close> occurs in \<open>s\<close> as a contiguous run.\<close>

fun starts_with :: "string \<Rightarrow> string \<Rightarrow> bool" where
  "starts_with [] s = True"
| "starts_with (p # ps) [] = False"
| "starts_with (p # ps) (c # cs) = (p = c \<and> starts_with ps cs)"

fun str_contains :: "string \<Rightarrow> string \<Rightarrow> bool" where
  "str_contains sub [] = (sub = [])"
| "str_contains sub (c # cs) = (starts_with sub (c # cs) \<or> str_contains sub cs)"

text \<open>\<open>s.split(sep)\<close> for a one-character separator: never an empty list.\<close>

fun split_on :: "char \<Rightarrow> string \<Rightarrow> string list" where
  "split_on sep [] = [[]]"
| "split_on sep (c # cs) =
     (if c = sep then [] # split_on sep cs
      else (case split_on sep cs of
              [] \<Rightarrow> [[c]]
            | p # ps \<Rightarrow> (c # p) # ps))"

text \<open>\<open>not v\<close> for a value that is \<open>None\<close> or a string.\<close>

definition falsy :: "string option \<Rightarrow> bool" where
  "falsy v = (v = None \<or> v = Some [])"

definition truthy :: "string option \<Rightarrow> bool" where
  "truthy v = (v \<noteq> None \<and> v \<noteq> Some [])"

text \<open>A name between single quotes, as \<open>'{filename}'\<close> in an f-string.\<close>

definition quoted :: "string \<Rightarrow> string" where
  "quoted s = CHR 0x27 # s @ [CHR 0x27]"

section \<open>The collaborators: pandas, base64, plotly\<close>

text \<open>
  A dataframe is its column labels, in order, and its rows. The libraries that
  \<open>projeto.py\<close> calls are not part of it, so they are parameters of the model: a record
  of functions, each returning what the call returns or the exception it raises.
\<close>

datatype cell = IntCell int | StrCell string | NullCell

record dataframe =
  columns :: "string list"
  rows :: "cell list list"

record figure =
  chart :: string
  x_col :: string
  y_col :: "string option"
  frame :: dataframe
  transition_duration :: "nat option"

record library =
  b64decode :: "string \<Rightarrow> exn + bytes"
  utf8_decode :: "bytes \<Rightarrow> exn + string"
  read_csv :: "string \<Rightarrow> exn + dataframe"
  read_excel :: "bytes \<Rightarrow> exn + dataframe"
  read_csv_url :: "string \<Rightarrow> exn + dataframe"
  to_json :: "dataframe \<Rightarrow> exn + string"
  read_json :: "string \<Rightarrow> exn + dataframe"
  px_scatter :: "dataframe \<Rightarrow> string \<Rightarrow> string \<Rightarrow> exn + figure"
  px_line :: "dataframe \<Rightarrow> string \<Rightarrow> string \<Rightarrow> exn + figure"
  px_bar :: "dataframe \<Rightarrow> string \<Rightarrow> string \<Rightarrow> exn + figure"
  px_histogram :: "dataframe \<Rightarrow> string \<Rightarrow> exn + figure"
  px_pie :: "dataframe \<Rightarrow> string \<Rightarrow> string \<Rightarrow> exn + figure"

section \<open>parse_contents\<close>

text \<open>The three messages of \<open>parse_contents\<close>.\<close>

definition unsupported_message :: "string \<Rightarrow> string" where
  "unsupported_message filename =
     ''Tipo de arquivo '' @ quoted filename @ '' n'' @ [CHR 0xE3] @ ''o suportado.''"

definition loaded_message :: "string \<Rightarrow> string" where
  "loaded_message filename = ''Arquivo '' @ quoted filename @ '' carregado com sucesso!''"

definition processing_error_message :: string where
  "processing_error_message = ''Ocorreu um erro ao processar o arquivo.''"

text \<open>\<open>pd.read_csv(io.StringIO(decoded.decode('utf-8')))\<close>: decode, then parse.\<close>

definition read_as_csv :: "library \<Rightarrow> bytes \<Rightarrow> exn + dataframe" where
  "read_as_csv lib decoded =
     (case utf8_decode lib decoded of
        Inl e \<Rightarrow> Inl e
      | Inr txt \<Rightarrow> read_csv lib txt)"

text \<open>
  The body of the \<open>try\<close> block (lines 86 to 94): the value it returns, or the exception
  that leaves it.
\<close>

definition try_body :: "library \<Rightarrow> bytes \<Rightarrow> string \<Rightarrow> exn + (dataframe option \<times> string)" where
  "try_body lib decoded filename =
     (if str_contains ''csv'' filename then
        (case read_as_csv lib decoded of
           Inl e \<Rightarrow> Inl e
         | Inr df \<Rightarrow> Inr (Some df, loaded_message filename))
      else if str_contains ''xls'' filename then
        (case read_excel lib decoded of
           Inl e \<Rightarrow> Inl e
         | Inr df \<Rightarrow> Inr (Some df, loaded_message filename))
      else Inr (None, unsupported_message filename))"

text \<open>
  \<open>parse_contents(contents, filename)\<close>: the pair it returns or the exception it raises,
  and the lines it prints. The split and the base64 decoding stand before the \<open>try\<close>, so
  their exceptions leave the function; an exception of the \<open>try\<close> block is printed and
  answered with the fixed message.
\<close>

definition unpack_error :: "nat \<Rightarrow> exn" where
  "unpack_error n =
     (if n < 2 then Exn ''ValueError'' ''not enough values to unpack (expected 2, got 1)''
      else Exn ''ValueError'' ''too many values to unpack (expected 2)'')"

definition parse_contents ::
  "library \<Rightarrow> string \<Rightarrow> string \<Rightarrow> (exn + (dataframe option \<times> string)) \<times> string list" where
  "parse_contents lib contents filename =
     (case split_on CHR '','' contents of
        [content_type, content_string] \<Rightarrow>
          (case b64decode lib content_string of
             Inl e \<Rightarrow> (Inl e, [])
           | Inr decoded \<Rightarrow>
               (case try_body lib decoded filename of
                  Inl e \<Rightarrow> (Inr (None, processing_error_message), [exn_text e])
                | Inr r \<Rightarrow> (Inr r, [])))
      | parts \<Rightarrow> (Inl (unpack_error (length parts)), []))"

section \<open>update_data_store\<close>

datatype colour = Green | Red

text \<open>\<open>html.P(status_message, style={'color': ...})\<close>.\<close>

record status_line =
  message :: string
  colour :: colour

text \<open>
  Lines 116 to 126: \<open>df\<close> and \<open>status_message\<close> after the \<open>if\<close>/\<open>elif\<close>.
  \<open>triggered_id\<close> is \<open>callback_context.triggered_id\<close>.
\<close>

definition load_data ::
  "library \<Rightarrow> string option \<Rightarrow> string option \<Rightarrow> string \<Rightarrow> string option
     \<Rightarrow> (exn + (dataframe option \<times> string)) \<times> string list" where
  "load_data lib triggered_id contents filename url =
     (if triggered_id = Some ''upload-data'' \<and> contents \<noteq> None then
        parse_contents lib (the contents) filename
      else if triggered_id = Some ''load-url-button'' \<and> truthy url then
        (case read_csv_url lib (the url) of
           Inr df \<Rightarrow> (Inr (Some df, ''Dados carregados com sucesso do link!''), [])
         | Inl e \<Rightarrow> (Inr (None, ''Erro ao carregar do link: '' @ exn_text e), []))
      else (Inr (None, []), []))"

text \<open>
  \<open>update_data_store\<close>: the two outputs (the new \<open>stored-data\<close> and the status line) or
  the exception raised, and the lines printed.
\<close>

definition update_data_store ::
  "library \<Rightarrow> string option \<Rightarrow> string option \<Rightarrow> int \<Rightarrow> string \<Rightarrow> string option
     \<Rightarrow> (exn + (string option \<times> status_line)) \<times> string list" where
  "update_data_store lib triggered_id contents n_clicks filename url =
     (case load_data lib triggered_id contents filename url of
        (Inl e, printed) \<Rightarrow> (Inl e, printed)
      | (Inr (Some df, status_message), printed) \<Rightarrow>
          (case to_json lib df of
             Inl e \<Rightarrow> (Inl e, printed)
           | Inr js \<Rightarrow> (Inr (Some js, \<lparr>message = status_message, colour = Green\<rparr>), printed))
      | (Inr (None, status_message), printed) \<Rightarrow>
          (Inr (None, \<lparr>message = status_message, colour = Red\<rparr>), printed))"

text \<open>
  The session's \<open>stored-data\<close> after the callback: Dash stores the first output of a
  callback that returns, and keeps the old value when the callback raises.
\<close>

definition stored_after ::
  "string option \<Rightarrow> (exn + (string option \<times> status_line)) \<Rightarrow> string option" where
  "stored_after previous outcome =
     (case outcome of
        Inl e \<Rightarrow> previous
      | Inr (data, st) \<Rightarrow> data)"

section \<open>update_dropdowns_and_visibility\<close>

datatype display = DisplayNone | DisplayBlock

text \<open>\<open>{'label': i, 'value': i}\<close>.\<close>

record dropdown_option =
  opt_label :: string
  opt_value :: string

definition update_dropdowns_and_visibility ::
  "library \<Rightarrow> string option
     \<Rightarrow> exn + (display \<times> dropdown_option list \<times> dropdown_option list
                \<times> string option \<times> string option)" where
  "update_dropdowns_and_visibility lib jsonified_dataframe =
     (if jsonified_dataframe = None then Inr (DisplayNone, [], [], None, None)
      else
        (case read_json lib (the jsonified_dataframe) of
           Inl e \<Rightarrow> Inl e
         | Inr df \<Rightarrow>
             (let cols = map (\<lambda>i. \<lparr>opt_label = i, opt_value = i\<rparr>) (columns df);
                  initial_x = (if length (columns df) > 0 then Some (columns df ! 0) else None);
                  initial_y = (if length (columns df) > 1 then Some (columns df ! 1) else None)
              in Inr (DisplayBlock, cols, cols, initial_x, initial_y))))"

section \<open>update_graph\<close>

text \<open>What the callback hands to \<open>main-graph\<close>: the dict \<open>{}\<close> or a plotly figure.\<close>

datatype graph = EmptyDict | Fig figure

text \<open>
  \<open>fig.update_layout(transition_duration=d)\<close>: a figure takes the setting; a dict has
  no such attribute.
\<close>

definition update_layout :: "graph \<Rightarrow> nat \<Rightarrow> exn + graph" where
  "update_layout fig d =
     (case fig of
        EmptyDict \<Rightarrow>
          Inl (Exn ''AttributeError''
                 (quoted ''dict'' @ '' object has no attribute '' @ quoted ''update_layout''))
      | Fig f \<Rightarrow> Inr (Fig (f\<lparr>transition_duration := Some d\<rparr>)))"

definition as_graph :: "exn + figure \<Rightarrow> exn + graph" where
  "as_graph r = (case r of Inl e \<Rightarrow> Inl e | Inr f \<Rightarrow> Inr (Fig f))"

text \<open>Lines 177 to 190: the value of \<open>fig\<close> after the dispatch on \<open>chart_type\<close>.\<close>

definition dispatch_chart ::
  "library \<Rightarrow> dataframe \<Rightarrow> string \<Rightarrow> string \<Rightarrow> string option \<Rightarrow> exn + graph" where
  "dispatch_chart lib df xaxis_col yaxis_col chart_type =
     (if chart_type = Some ''scatter'' then as_graph (px_scatter lib df xaxis_col yaxis_col)
      else if chart_type = Some ''line'' then as_graph (px_line lib df xaxis_col yaxis_col)
      else if chart_type = Some ''bar'' then as_graph (px_bar lib df xaxis_col yaxis_col)
      else if chart_type = Some ''histogram'' then as_graph (px_histogram lib df xaxis_col)
      else if chart_type = Some ''pie'' then as_graph (px_pie lib df xaxis_col yaxis_col)
      else Inr EmptyDict)"

definition update_graph ::
  "library \<Rightarrow> string option \<Rightarrow> string option \<Rightarrow> string option \<Rightarrow> string option
     \<Rightarrow> exn + graph" where
  "update_graph lib jsonified_dataframe xaxis_col yaxis_col chart_type =
     (if jsonified_dataframe = None \<or> falsy xaxis_col \<or> falsy yaxis_col then Inr EmptyDict
      else
        (case read_json lib (the jsonified_dataframe) of
           Inl e \<Rightarrow> Inl e
         | Inr df \<Rightarrow>
             (case dispatch_chart lib df (the xaxis_col) (the yaxis_col) chart_type of
                Inl e \<Rightarrow> Inl e
              | Inr fig \<Rightarrow> update_layout fig 500)))"

section \<open>What the claims speak of\<close>

text \<open>
  The parser of the \<open>try\<close> block raises \<open>e\<close>: the CSV branch is taken and decoding or
  parsing raises, or the spreadsheet branch is taken and parsing raises.
\<close>

definition parser_raises :: "library \<Rightarrow> bytes \<Rightarrow> string \<Rightarrow> exn \<Rightarrow> bool" where
  "parser_raises lib decoded filename e =
     (if str_contains ''csv'' filename then read_as_csv lib decoded = Inl e
      else str_contains ''xls'' filename \<and> read_excel lib decoded = Inl e)"

text \<open>
  Lower case of an ASCII letter, and a match that ignores letter case, as the
  specification words the choice of the parser.
\<close>

definition ascii_lower :: "char \<Rightarrow> char" where
  "ascii_lower c =
     (if 65 \<le> (of_char c :: nat) \<and> (of_char c :: nat) \<le> 90
      then char_of ((of_char c :: nat) + 32) else c)"

definition contains_ignoring_case :: "string \<Rightarrow> string \<Rightarrow> bool" where
  "contains_ignoring_case sub s = str_contains sub (map ascii_lower s)"

section \<open>A sample session\<close>

text \<open>
  The file of the specification's scenario (the three lines \<open>x,y\<close>, \<open>1,2\<close> and
  \<open>3,4\<close>) as the browser uploads it, and a library that answers on it as pandas,
  base64 and plotly do: the bytes of the file decode and parse to a frame of two
  columns and two rows; the same bytes are no spreadsheet; the host of the sample link
  does not resolve. On every other input the sample library raises.
\<close>

definition sample_bytes :: bytes where
  "sample_bytes = [120, 44, 121, 10, 49, 44, 50, 10, 51, 44, 52, 10]"

definition sample_text :: string where
  "sample_text = ''x,y'' @ [CHR 0x0A] @ ''1,2'' @ [CHR 0x0A] @ ''3,4'' @ [CHR 0x0A]"

definition sample_contents :: string where
  "sample_contents = ''data:text/csv;base64,eCx5CjEsMgozLDQK''"

definition sample_frame :: dataframe where
  "sample_frame =
     \<lparr>columns = [''x'', ''y''],
      rows = [[IntCell 1, IntCell 2], [IntCell 3, IntCell 4]]\<rparr>"

definition json_name :: "string \<Rightarrow> string" where
  "json_name s = CHR 0x22 # s @ [CHR 0x22]"

definition sample_json :: string where
  "sample_json =
     ''{'' @ json_name ''columns'' @ '':['' @ json_name ''x'' @ '','' @ json_name ''y''
       @ ''],'' @ json_name ''index'' @ '':[0,1],'' @ json_name ''data''
       @ '':[[1,2],[3,4]]}''"

definition sample_url :: string where
  "sample_url = ''http://nowhere.invalid/data.csv''"

definition plot :: "string \<Rightarrow> dataframe \<Rightarrow> string \<Rightarrow> string option \<Rightarrow> exn + figure" where
  "plot kind df x y =
     (if x \<in> set (columns df) \<and> (y = None \<or> the y \<in> set (columns df))
      then Inr \<lparr>chart = kind, x_col = x, y_col = y, frame = df, transition_duration = None\<rparr>
      else Inl (Exn ''ValueError'' ''Value of a column argument is not the name of a column''))"

definition sample_lib :: library where
  "sample_lib =
     \<lparr>b64decode = (\<lambda>s. if s = ''eCx5CjEsMgozLDQK'' then Inr sample_bytes
                        else Inl (Exn ''binascii.Error'' ''Incorrect padding'')),
      utf8_decode = (\<lambda>b. if b = sample_bytes then Inr sample_text
                          else Inl (Exn ''UnicodeDecodeError'' ''invalid start byte'')),
      read_csv = (\<lambda>t. if t = sample_text then Inr sample_frame
                       else Inl (Exn ''ParserError'' ''Error tokenizing data'')),
      read_excel = (\<lambda>b. Inl (Exn ''ValueError''
                       ''Excel file format cannot be determined, you must specify an engine manually.'')),
      read_csv_url = (\<lambda>u. Inl (Exn ''URLError''
                       ''<urlopen error [Errno -2] Name or service not known>'')),
      to_json = (\<lambda>df. if df = sample_frame then Inr sample_json
                       else Inl (Exn ''ValueError'' ''not the sample frame'')),
      read_json = (\<lambda>s. if s = sample_json then Inr sample_frame
                        else Inl (Exn ''ValueError'' ''Expected object or value'')),
      px_scatter = (\<lambda>df x y. plot ''scatter'' df x (Some y)),
      px_line = (\<lambda>df x y. plot ''line'' df x (Some y)),
      px_bar = (\<lambda>df x y. plot ''bar'' df x (Some y)),
      px_histogram = (\<lambda>df x. plot ''histogram'' df x None),
      px_pie = (\<lambda>df x y. plot ''pie'' df x (Some y))\<rparr>"

section \<open>Properties\<close>

subsection \<open>Strings\<close>

lemma starts_with_iff: "starts_with p s \<longleftrightarrow> (\<exists>q. s = p @ q)"
  by (induction p s rule: starts_with.induct) auto

lemma str_contains_iff: "str_contains sub s \<longleftrightarrow> (\<exists>p q. s = p @ sub @ q)"
proof (induction s)
  case Nil
  then show ?case by auto
next
  case (Cons c cs)
  show ?case
  proof
    assume "str_contains sub (c # cs)"
    then consider "starts_with sub (c # cs)" | "str_contains sub cs" by auto
    then show "\<exists>p q. c # cs = p @ sub @ q"
    proof cases
      case 1
      then obtain q where "c # cs = sub @ q" by (auto simp: starts_with_iff)
      then have "c # cs = [] @ sub @ q" by simp
      then show ?thesis by blast
    next
      case 2
      then obtain p q where "cs = p @ sub @ q" using Cons.IH by auto
      then have "c # cs = (c # p) @ sub @ q" by simp
      then show ?thesis by blast
    qed
  next
    assume "\<exists>p q. c # cs = p @ sub @ q"
    then obtain p q where eq: "c # cs = p @ sub @ q" by auto
    show "str_contains sub (c # cs)"
    proof (cases p)
      case Nil
      then have "starts_with sub (c # cs)" using eq by (auto simp: starts_with_iff)
      then show ?thesis by simp
    next
      case (Cons a p')
      then have "cs = p' @ sub @ q" using eq by simp
      then have "str_contains sub cs" using Cons.IH by blast
      then show ?thesis by simp
    qed
  qed
qed


lemma unsupported_message_names_file: "str_contains filename (unsupported_message filename)"
proof -
  have "unsupported_message filename =
          (''Tipo de arquivo '' @ [CHR 0x27]) @ filename
            @ (CHR 0x27 # '' n'' @ [CHR 0xE3] @ ''o suportado.'')"
    by (simp add: unsupported_message_def quoted_def)
  then show ?thesis
    unfolding str_contains_iff by blast
qed

lemma parse_contents_decoded:
  assumes "split_on CHR '','' contents = [content_type, content_string]"
      and "b64decode lib content_string = Inr decoded"
  shows "parse_contents lib contents filename =
           (case try_body lib decoded filename of
              Inl e \<Rightarrow> (Inr (None, processing_error_message), [exn_text e])
            | Inr r \<Rightarrow> (Inr r, []))"
  using assms by (simp add: parse_contents_def)

lemma sample_split:
  "split_on CHR '','' sample_contents = [''data:text/csv;base64'', ''eCx5CjEsMgozLDQK'']"
  by (simp add: sample_contents_def)

lemma sample_decode: "b64decode sample_lib ''eCx5CjEsMgozLDQK'' = Inr sample_bytes"
  by (simp add: sample_lib_def)

lemma sample_read_as_csv: "read_as_csv sample_lib sample_bytes = Inr sample_frame"
  by (simp add: read_as_csv_def sample_lib_def)

lemma sample_read_excel:
  "read_excel sample_lib sample_bytes =
     Inl (Exn ''ValueError''
            ''Excel file format cannot be determined, you must specify an engine manually.'')"
  by (simp add: sample_lib_def)

lemma sample_read_json: "read_json sample_lib sample_json = Inr sample_frame"
  by (simp add: sample_lib_def)

subsection \<open>Choice of the parser\<close>

text \<open>
  Claim C1, as amended. For an upload whose contents split at one comma and whose
  payload decodes, \<open>parse_contents\<close> chooses by a case-sensitive search of the file
  name: a name holding \<open>csv\<close> goes to the CSV parser, else a name holding \<open>xls\<close> goes
  to the spreadsheet parser, else the answer is the unsupported-type message, which
  holds the file name. The claim as stated asks for a match in any letter case: the
  name \<open>DATA.CSV\<close> holds \<open>csv\<close> in upper case, its bytes are a CSV file that the CSV
  parser reads, and \<open>parse_contents\<close> answers that the type is not supported.
\<close>

theorem parse_contents_parser_choice:
  assumes "split_on CHR '','' contents = [content_type, content_string]"
      and "b64decode lib content_string = Inr decoded"
  shows "parse_contents lib contents filename =
           (if str_contains ''csv'' filename then
              (case read_as_csv lib decoded of
                 Inr df \<Rightarrow> (Inr (Some df, loaded_message filename), [])
               | Inl e \<Rightarrow> (Inr (None, processing_error_message), [exn_text e]))
            else if str_contains ''xls'' filename then
              (case read_excel lib decoded of
                 Inr df \<Rightarrow> (Inr (Some df, loaded_message filename), [])
               | Inl e \<Rightarrow> (Inr (None, processing_error_message), [exn_text e]))
            else (Inr (None, unsupported_message filename), []))
         \<and> str_contains filename (unsupported_message filename)"
proof -
  have "parse_contents lib contents filename =
           (case try_body lib decoded filename of
              Inl e \<Rightarrow> (Inr (None, processing_error_message), [exn_text e])
            | Inr r \<Rightarrow> (Inr r, []))"
    using assms by (rule parse_contents_decoded)
  then show ?thesis
    by (simp add: try_body_def unsupported_message_names_file split: sum.splits)
qed

theorem parse_contents_parser_choice_witness:
  "parse_contents sample_lib sample_contents ''data.csv''
     = (Inr (Some sample_frame, loaded_message ''data.csv''), [])
   \<and> parse_contents sample_lib sample_contents ''data.xls''
     = (Inr (None, processing_error_message),
        [''Excel file format cannot be determined, you must specify an engine manually.''])
   \<and> parse_contents sample_lib sample_contents ''notes.txt''
     = (Inr (None, unsupported_message ''notes.txt''), [])"
proof -
  note choice = parse_contents_parser_choice [OF sample_split sample_decode]
  have "parse_contents sample_lib sample_contents ''data.csv''
          = (Inr (Some sample_frame, loaded_message ''data.csv''), [])"
    using choice [of "''data.csv''"] by (simp add: sample_read_as_csv)
  moreover have "parse_contents sample_lib sample_contents ''data.xls''
          = (Inr (None, processing_error_message),
             [''Excel file format cannot be determined, you must specify an engine manually.''])"
    using choice [of "''data.xls''"] by (simp add: sample_read_excel)
  moreover have "parse_contents sample_lib sample_contents ''notes.txt''
          = (Inr (None, unsupported_message ''notes.txt''), [])"
    using choice [of "''notes.txt''"] by simp
  ultimately show ?thesis by simp
qed

theorem parse_contents_ignoring_case_counterexample:
  "contains_ignoring_case ''csv'' ''DATA.CSV''
   \<and> split_on CHR '','' sample_contents = [''data:text/csv;base64'', ''eCx5CjEsMgozLDQK'']
   \<and> b64decode sample_lib ''eCx5CjEsMgozLDQK'' = Inr sample_bytes
   \<and> read_as_csv sample_lib sample_bytes = Inr sample_frame
   \<and> parse_contents sample_lib sample_contents ''DATA.CSV''
       = (Inr (None, unsupported_message ''DATA.CSV''), [])"
proof -
  have "contains_ignoring_case ''csv'' ''DATA.CSV''"
    by code_simp
  moreover have "parse_contents sample_lib sample_contents ''DATA.CSV''
       = (Inr (None, unsupported_message ''DATA.CSV''), [])"
    by (simp add: parse_contents_decoded [OF sample_split sample_decode] try_body_def)
  ultimately show ?thesis
    by (simp add: sample_split sample_decode sample_read_as_csv)
qed

subsection \<open>The chart\<close>

text \<open>
  Claim C2. When there is no snapshot, or the X column is \<open>None\<close> or empty, or the Y
  column is \<open>None\<close> or empty, \<open>update_graph\<close> returns the empty dict, whatever the chart
  type, \<open>histogram\<close> included.
\<close>

theorem update_graph_guard:
  assumes "jsonified_dataframe = None \<or> falsy xaxis_col \<or> falsy yaxis_col"
  shows "update_graph lib jsonified_dataframe xaxis_col yaxis_col chart_type = Inr EmptyDict"
  using assms by (simp add: update_graph_def)

theorem update_graph_guard_witness:
  "update_graph sample_lib (Some sample_json) (Some ''x'') None (Some ''histogram'') = Inr EmptyDict
   \<and> update_graph sample_lib (Some sample_json) (Some []) (Some ''y'') (Some ''pie'') = Inr EmptyDict
   \<and> update_graph sample_lib None (Some ''x'') (Some ''y'') (Some ''scatter'') = Inr EmptyDict"
proof -
  have "falsy None" and "falsy (Some [])"
    by (simp_all add: falsy_def)
  then show ?thesis
    by (simp add: update_graph_guard)
qed

text \<open>
  Claim C3 asks that a chart type outside \<open>scatter\<close>, \<open>line\<close>, \<open>bar\<close>, \<open>histogram\<close>
  and \<open>pie\<close> gives the empty chart without an error. The \<open>else\<close> branch does set
  \<open>fig = {}\<close>, but line 192 then calls \<open>update_layout\<close> on that dict: with a snapshot
  that deserialises and both columns chosen, \<open>update_graph\<close> raises AttributeError. A
  cleared chart-type dropdown (\<open>None\<close>) is such an input.
\<close>

theorem update_graph_unrecognized_raises:
  assumes "read_json lib s = Inr df"
      and "xaxis_col = Some x" and "x \<noteq> []"
      and "yaxis_col = Some y" and "y \<noteq> []"
      and "chart_type \<noteq> Some ''scatter''" and "chart_type \<noteq> Some ''line''"
      and "chart_type \<noteq> Some ''bar''" and "chart_type \<noteq> Some ''histogram''"
      and "chart_type \<noteq> Some ''pie''"
  shows "update_graph lib (Some s) xaxis_col yaxis_col chart_type =
           Inl (Exn ''AttributeError''
                  (quoted ''dict'' @ '' object has no attribute '' @ quoted ''update_layout''))"
  using assms
  by (simp add: update_graph_def falsy_def dispatch_chart_def update_layout_def)

theorem update_graph_unrecognized_raises_witness:
  "update_graph sample_lib (Some sample_json) (Some ''x'') (Some ''y'') None =
     Inl (Exn ''AttributeError''
            (quoted ''dict'' @ '' object has no attribute '' @ quoted ''update_layout''))
   \<and> update_graph sample_lib (Some sample_json) (Some ''x'') (Some ''y'') (Some ''area'') =
     Inl (Exn ''AttributeError''
            (quoted ''dict'' @ '' object has no attribute '' @ quoted ''update_layout''))"
proof -
  note raises = update_graph_unrecognized_raises [OF sample_read_json, of _ "''x''" _ "''y''"]
  have "update_graph sample_lib (Some sample_json) (Some ''x'') (Some ''y'') None =
     Inl (Exn ''AttributeError''
            (quoted ''dict'' @ '' object has no attribute '' @ quoted ''update_layout''))"
    by (rule raises) simp_all
  moreover have "update_graph sample_lib (Some sample_json) (Some ''x'') (Some ''y'') (Some ''area'') =
     Inl (Exn ''AttributeError''
            (quoted ''dict'' @ '' object has no attribute '' @ quoted ''update_layout''))"
    by (rule raises) simp_all
  ultimately show ?thesis by simp
qed

lemma parser_raises_try_body:
  "parser_raises lib decoded filename e \<Longrightarrow> try_body lib decoded filename = Inl e"
  by (simp add: parser_raises_def try_body_def split: if_splits)

lemma load_data_upload:
  "load_data lib (Some ''upload-data'') (Some c) filename url = parse_contents lib c filename"
  by (simp add: load_data_def)

lemma load_data_url:
  assumes "u \<noteq> []"
  shows "load_data lib (Some ''load-url-button'') contents filename (Some u) =
           (case read_csv_url lib u of
              Inr df \<Rightarrow> (Inr (Some df, ''Dados carregados com sucesso do link!''), [])
            | Inl e \<Rightarrow> (Inr (None, ''Erro ao carregar do link: '' @ exn_text e), []))"
  using assms by (simp add: load_data_def truthy_def)

lemma sample_read_csv_url:
  "read_csv_url sample_lib sample_url =
     Inl (Exn ''URLError'' ''<urlopen error [Errno -2] Name or service not known>'')"
  by (simp add: sample_lib_def)

lemma sample_parser_raises:
  "parser_raises sample_lib sample_bytes ''data.xls''
     (Exn ''ValueError''
        ''Excel file format cannot be determined, you must specify an engine manually.'')"
  by (simp add: parser_raises_def sample_read_excel)

subsection \<open>Failed ingestion\<close>

text \<open>
  Claim C5. When the file name selects a parser and that parser raises on the bytes
  (for the CSV branch: decoding or parsing), \<open>parse_contents\<close> returns no frame and
  the fixed message of line 97, which is the same for every exception, and prints the
  exception (\<open>print(e)\<close>), the only place where its text goes.
\<close>

theorem parse_error_message_is_fixed:
  assumes "split_on CHR '','' contents = [content_type, content_string]"
      and "b64decode lib content_string = Inr decoded"
      and "parser_raises lib decoded filename e"
  shows "parse_contents lib contents filename =
           (Inr (None, ''Ocorreu um erro ao processar o arquivo.''), [exn_text e])"
  using assms
  by (simp add: parse_contents_decoded parser_raises_try_body processing_error_message_def)

theorem parse_error_message_is_fixed_witness:
  "parse_contents sample_lib sample_contents ''data.xls'' =
     (Inr (None, ''Ocorreu um erro ao processar o arquivo.''),
      [''Excel file format cannot be determined, you must specify an engine manually.''])"
  using parse_error_message_is_fixed [OF sample_split sample_decode sample_parser_raises]
  by simp

text \<open>
  Claim C6. When the link button triggers the callback with a non-empty link and
  \<open>pd.read_csv(url)\<close> raises, fetching or parsing, the status line is red and its text
  is \<open>Erro ao carregar do link: \<close> followed by the text of the exception, so the text
  of the exception occurs in it.
\<close>

theorem url_failure_shows_error:
  assumes "triggered_id = Some ''load-url-button''"
      and "url = Some u" and "u \<noteq> []"
      and "read_csv_url lib u = Inl e"
  shows "update_data_store lib triggered_id contents n_clicks filename url =
           (Inr (None, \<lparr>message = ''Erro ao carregar do link: '' @ exn_text e, colour = Red\<rparr>), [])
         \<and> str_contains (exn_text e) (''Erro ao carregar do link: '' @ exn_text e)"
proof -
  have "''Erro ao carregar do link: '' @ exn_text e = ''Erro ao carregar do link: '' @ exn_text e @ []"
    by simp
  then have "str_contains (exn_text e) (''Erro ao carregar do link: '' @ exn_text e)"
    unfolding str_contains_iff by blast
  moreover have "update_data_store lib triggered_id contents n_clicks filename url =
           (Inr (None, \<lparr>message = ''Erro ao carregar do link: '' @ exn_text e, colour = Red\<rparr>), [])"
    using assms by (simp add: update_data_store_def load_data_url)
  ultimately show ?thesis by simp
qed

theorem url_failure_shows_error_witness:
  "update_data_store sample_lib (Some ''load-url-button'') None 1 [] (Some sample_url) =
     (Inr (None,
           \<lparr>message = ''Erro ao carregar do link: <urlopen error [Errno -2] Name or service not known>'',
            colour = Red\<rparr>), [])"
proof -
  have "sample_url \<noteq> []"
    by (simp add: sample_url_def)
  from url_failure_shows_error [OF refl refl this sample_read_csv_url]
  show ?thesis by simp
qed

text \<open>
  Claim C4. After an ingestion that fails (an upload of an unsupported type, an upload
  whose parser raises, a link whose fetch or parse raises) \<open>update_data_store\<close>
  returns \<open>None\<close> for \<open>stored-data\<close> with a red status line, so the stored snapshot
  is \<open>None\<close> afterwards, whatever was stored before.
\<close>

theorem failed_ingestion_clears_store:
  assumes "(triggered_id = Some ''upload-data'' \<and> contents = Some c
              \<and> split_on CHR '','' c = [content_type, content_string]
              \<and> b64decode lib content_string = Inr decoded
              \<and> (\<not> str_contains ''csv'' filename \<and> \<not> str_contains ''xls'' filename
                  \<or> parser_raises lib decoded filename e))
           \<or> (triggered_id = Some ''load-url-button'' \<and> url = Some u \<and> u \<noteq> []
              \<and> read_csv_url lib u = Inl e)"
  shows "(\<exists>msg printed.
            update_data_store lib triggered_id contents n_clicks filename url =
              (Inr (None, \<lparr>message = msg, colour = Red\<rparr>), printed))
         \<and> stored_after previous
             (fst (update_data_store lib triggered_id contents n_clicks filename url)) = None"
proof -
  have "\<exists>msg printed.
          load_data lib triggered_id contents filename url = (Inr (None, msg), printed)"
    using assms
  proof (elim disjE conjE)
    assume "triggered_id = Some ''upload-data''" "contents = Some c"
      and "split_on CHR '','' c = [content_type, content_string]"
      and "b64decode lib content_string = Inr decoded"
      and "\<not> str_contains ''csv'' filename" "\<not> str_contains ''xls'' filename"
    then show ?thesis
      by (simp add: load_data_upload parse_contents_decoded try_body_def)
  next
    assume "triggered_id = Some ''upload-data''" "contents = Some c"
      and "split_on CHR '','' c = [content_type, content_string]"
      and "b64decode lib content_string = Inr decoded"
      and "parser_raises lib decoded filename e"
    then show ?thesis
      by (simp add: load_data_upload parse_contents_decoded parser_raises_try_body)
  next
    assume "triggered_id = Some ''load-url-button''" "url = Some u" "u \<noteq> []"
      and "read_csv_url lib u = Inl e"
    then show ?thesis
      by (simp add: load_data_url)
  qed
  then obtain msg printed where
    "load_data lib triggered_id contents filename url = (Inr (None, msg), printed)"
    by blast
  then have "update_data_store lib triggered_id contents n_clicks filename url =
               (Inr (None, \<lparr>message = msg, colour = Red\<rparr>), printed)"
    by (simp add: update_data_store_def)
  then show ?thesis
    by (simp add: stored_after_def)
qed

theorem failed_ingestion_clears_store_witness:
  "stored_after (Some sample_json)
     (fst (update_data_store sample_lib (Some ''upload-data'') (Some sample_contents) 0
             ''notes.txt'' None)) = None
   \<and> stored_after (Some sample_json)
     (fst (update_data_store sample_lib (Some ''upload-data'') (Some sample_contents) 0
             ''data.xls'' None)) = None
   \<and> stored_after (Some sample_json)
     (fst (update_data_store sample_lib (Some ''load-url-button'') None 1 [] (Some sample_url)))
       = None"
proof -
  have url: "sample_url \<noteq> []"
    by (simp add: sample_url_def)
  have "stored_after (Some sample_json)
     (fst (update_data_store sample_lib (Some ''upload-data'') (Some sample_contents) 0
             ''notes.txt'' None)) = None"
    using failed_ingestion_clears_store
      [of "Some ''upload-data''" "Some sample_contents" sample_contents _ _ sample_lib
          sample_bytes "''notes.txt''"]
    by (simp add: sample_split sample_decode)
  moreover have "stored_after (Some sample_json)
     (fst (update_data_store sample_lib (Some ''upload-data'') (Some sample_contents) 0
             ''data.xls'' None)) = None"
    using failed_ingestion_clears_store
      [of "Some ''upload-data''" "Some sample_contents" sample_contents _ _ sample_lib
          sample_bytes "''data.xls''"]
      sample_parser_raises
    by (simp add: sample_split sample_decode)
  moreover have "stored_after (Some sample_json)
     (fst (update_data_store sample_lib (Some ''load-url-button'') None 1 [] (Some sample_url)))
       = None"
    using failed_ingestion_clears_store
      [of "Some ''load-url-button''" _ _ _ _ sample_lib _ _ _ "Some sample_url" sample_url]
      sample_read_csv_url url
    by simp
  ultimately show ?thesis by simp
qed

subsection \<open>The dropdowns\<close>

text \<open>
  Claim C7. Without a snapshot the visualisation is hidden, both option lists are
  empty and both defaults are \<open>None\<close>.
\<close>

theorem no_snapshot_hides_controls:
  "update_dropdowns_and_visibility lib None = Inr (DisplayNone, [], [], None, None)"
  by (simp add: update_dropdowns_and_visibility_def)

text \<open>
  Claim C8. For a snapshot that deserialises to a frame, the visualisation is shown,
  both option lists hold the column names in the frame's order, the X default is the
  first column name (\<open>None\<close> when there is no column) and the Y default is the second
  (\<open>None\<close> when there are fewer than two).
\<close>

theorem snapshot_projection:
  assumes "read_json lib s = Inr df"
  shows "update_dropdowns_and_visibility lib (Some s) =
           Inr (DisplayBlock,
                map (\<lambda>i. \<lparr>opt_label = i, opt_value = i\<rparr>) (columns df),
                map (\<lambda>i. \<lparr>opt_label = i, opt_value = i\<rparr>) (columns df),
                (case columns df of [] \<Rightarrow> None | c # rest \<Rightarrow> Some c),
                (case columns df of c1 # c2 # rest \<Rightarrow> Some c2 | _ \<Rightarrow> None))
         \<and> map opt_value (map (\<lambda>i. \<lparr>opt_label = i, opt_value = i\<rparr>) (columns df)) = columns df"
  using assms
  by (simp add: update_dropdowns_and_visibility_def Let_def comp_def split: list.splits)

theorem snapshot_projection_witness:
  "update_dropdowns_and_visibility sample_lib (Some sample_json) =
     Inr (DisplayBlock,
          [\<lparr>opt_label = ''x'', opt_value = ''x''\<rparr>, \<lparr>opt_label = ''y'', opt_value = ''y''\<rparr>],
          [\<lparr>opt_label = ''x'', opt_value = ''x''\<rparr>, \<lparr>opt_label = ''y'', opt_value = ''y''\<rparr>],
          Some ''x'', Some ''y'')"
  using snapshot_projection [OF sample_read_json]
  by (simp add: sample_frame_def)

subsection \<open>A file name with both extensions\<close>

text \<open>
  Claim C10. When the file name holds both \<open>csv\<close> and \<open>xls\<close>, the CSV parser
  decides the answer: the result is that of the CSV branch, and it is the same
  whatever the spreadsheet parser would do.
\<close>

theorem csv_takes_precedence:
  assumes "split_on CHR '','' contents = [content_type, content_string]"
      and "b64decode lib content_string = Inr decoded"
      and "str_contains ''csv'' filename" and "str_contains ''xls'' filename"
  shows "parse_contents lib contents filename =
           (case read_as_csv lib decoded of
              Inr df \<Rightarrow> (Inr (Some df, loaded_message filename), [])
            | Inl e \<Rightarrow> (Inr (None, processing_error_message), [exn_text e]))
         \<and> parse_contents (lib\<lparr>read_excel := other\<rparr>) contents filename
             = parse_contents lib contents filename"
  using assms
  by (simp add: parse_contents_def try_body_def read_as_csv_def split: sum.splits)

theorem csv_takes_precedence_witness:
  "str_contains ''csv'' ''data.csv.xls'' \<and> str_contains ''xls'' ''data.csv.xls''
   \<and> parse_contents sample_lib sample_contents ''data.csv.xls''
       = (Inr (Some sample_frame, loaded_message ''data.csv.xls''), [])"
proof -
  have c: "str_contains ''csv'' ''data.csv.xls''" and x: "str_contains ''xls'' ''data.csv.xls''"
    by simp_all
  from csv_takes_precedence [OF sample_split sample_decode c x] c x
  show ?thesis by (simp add: sample_read_as_csv)
qed

end
